theory Spec2Isabelle
  imports Complex_Main "HOL-Library.Sublist"
begin

section \<open>Data model (main.py)\<close>

text \<open>
  \<^verbatim>\<open>MovieInfo\<close> is the dataclass of main.py, lines 12-22: a title and a list of genres
  whose default is the empty list.
\<close>

record MovieInfo =
  title :: string
  genres :: "string list"

text \<open>The constructor call \<^verbatim>\<open>MovieInfo(title=t)\<close>: \<^verbatim>\<open>genres\<close> takes its default.\<close>

definition new_MovieInfo :: "string \<Rightarrow> MovieInfo" where
  "new_MovieInfo t = \<lparr>title = t, genres = []\<rparr>"

text \<open>
  The exceptions the scraper can raise. \<^verbatim>\<open>RequestException\<close> stands for whatever
  \<^verbatim>\<open>session.get\<close> raises (connection errors, timeouts, exhausted retries).
\<close>

datatype exn = ValueError string | RequestException string | ZeroDivisionError

fun str_exn :: "exn \<Rightarrow> string" where
  "str_exn (ValueError m) = m"
| "str_exn (RequestException m) = m"
| "str_exn ZeroDivisionError = ''division by zero''"

section \<open>Parsed documents (the part of BeautifulSoup the scraper uses)\<close>

text \<open>
  A parsed page is a tree: a tag has a name, the list of its classes, its other
  attributes (a dictionary, here an association list read with \<open>map_of\<close>) and its
  children; a \<^verbatim>\<open>NavigableString\<close> is a piece of text.
\<close>

datatype node =
    Tag (name: string) (classes: "string list") (attrs: "(string \<times> string) list")
        (contents: "node list")
  | NavigableString string

text \<open>All nodes below an element, in document order (the element itself excluded).\<close>

fun descendants :: "node \<Rightarrow> node list"
  and descendants_list :: "node list \<Rightarrow> node list" where
  "descendants (NavigableString s) = []"
| "descendants (Tag n cs a ks) = descendants_list ks"
| "descendants_list [] = []"
| "descendants_list (k # ks) = k # descendants k @ descendants_list ks"

text \<open>\<^verbatim>\<open>el.text\<close>: the strings below the element, concatenated in document order.\<close>

fun get_text :: "node \<Rightarrow> string"
  and get_text_list :: "node list \<Rightarrow> string" where
  "get_text (NavigableString s) = s"
| "get_text (Tag n cs a ks) = get_text_list ks"
| "get_text_list [] = []"
| "get_text_list (k # ks) = get_text k @ get_text_list ks"

text \<open>
  The test behind \<^verbatim>\<open>find(name, class_=c)\<close>: a tag of that name which carries the class
  \<open>c\<close> among its classes; \<open>None\<close> for the class means that no class is asked for.
\<close>

fun matches :: "string \<Rightarrow> string option \<Rightarrow> node \<Rightarrow> bool" where
  "matches n c (NavigableString s) = False"
| "matches n c (Tag m cs a ks) =
     (m = n \<and> (case c of None \<Rightarrow> True | Some cl \<Rightarrow> cl \<in> set cs))"

definition soup_find_all :: "string \<Rightarrow> string option \<Rightarrow> node \<Rightarrow> node list" where
  "soup_find_all n c el = filter (matches n c) (descendants el)"

definition soup_find :: "string \<Rightarrow> string option \<Rightarrow> node \<Rightarrow> node option" where
  "soup_find n c el = (case soup_find_all n c el of [] \<Rightarrow> None | x # _ \<Rightarrow> Some x)"

text \<open>\<^verbatim>\<open>el.get(key)\<close> and \<^verbatim>\<open>el[key] if key in el.attrs else None\<close>.\<close>

fun get_attr :: "node \<Rightarrow> string \<Rightarrow> string option" where
  "get_attr (NavigableString s) k = None"
| "get_attr (Tag n cs a ks) k = map_of a k"

section \<open>Extraction (main.py, lines 71-114)\<close>

text \<open>Python's truth value of a string or \<^verbatim>\<open>None\<close>: false for \<^verbatim>\<open>None\<close> and for \<^verbatim>\<open>''\<close>.\<close>

fun truthy :: "string option \<Rightarrow> bool" where
  "truthy None = False"
| "truthy (Some s) = (s \<noteq> [])"

text \<open>
  \<^verbatim>\<open>_extract_movie_info\<close>: the title is the poster's \<^verbatim>\<open>data-film-name\<close>; when that is
  missing or empty, the \<^verbatim>\<open>alt\<close> of the first \<^verbatim>\<open>img\<close> of class \<^verbatim>\<open>image\<close> inside the poster.
  Without a title the result is \<^verbatim>\<open>None\<close>.
\<close>

definition extract_movie_info :: "node \<Rightarrow> MovieInfo option" where
  "extract_movie_info film_poster =
     (let film_title0 = get_attr film_poster ''data-film-name'';
          film_title =
            (if \<not> truthy film_title0 then
               (case soup_find ''img'' (Some ''image'') film_poster of
                  Some img \<Rightarrow> get_attr img ''alt''
                | None \<Rightarrow> None)
             else film_title0)
      in case film_title of
           Some t \<Rightarrow> if t \<noteq> [] then Some (new_MovieInfo t) else None
         | None \<Rightarrow> None)"

text \<open>
  The grid container of \<^verbatim>\<open>_parse_movie_page\<close>: the first marker that is found, tried
  in the order \<^verbatim>\<open>ul.poster-list\<close>, \<^verbatim>\<open>ul.films-grid\<close>, \<^verbatim>\<open>div.films-grid\<close>.
\<close>

definition film_grid :: "node \<Rightarrow> node option" where
  "film_grid soup =
     (case soup_find ''ul'' (Some ''poster-list'') soup of
        Some g \<Rightarrow> Some g
      | None \<Rightarrow>
          (case soup_find ''ul'' (Some ''films-grid'') soup of
             Some g \<Rightarrow> Some g
           | None \<Rightarrow> soup_find ''div'' (Some ''films-grid'') soup))"

text \<open>The body of the loop over the items of a grid (lines 103-108).\<close>

definition extract_item :: "node \<Rightarrow> MovieInfo option" where
  "extract_item film_item =
     (case soup_find ''div'' (Some ''film-poster'') film_item of
        None \<Rightarrow> None
      | Some film_poster \<Rightarrow> extract_movie_info film_poster)"

text \<open>
  \<^verbatim>\<open>_parse_movie_page\<close>. Without a grid, every \<^verbatim>\<open>div.film-poster\<close> of the document is
  read; with a grid, the first \<^verbatim>\<open>div.film-poster\<close> of each \<^verbatim>\<open>li.poster-container\<close> below
  the grid. Each loop appends the movies that were extracted, in order.
\<close>

definition parse_movie_page :: "node \<Rightarrow> MovieInfo list" where
  "parse_movie_page soup =
     (case film_grid soup of
        None \<Rightarrow>
          List.map_filter extract_movie_info
            (soup_find_all ''div'' (Some ''film-poster'') soup)
      | Some g \<Rightarrow>
          List.map_filter extract_item
            (soup_find_all ''li'' (Some ''poster-container'') g))"

section \<open>Strings and numbers of Python\<close>

text \<open>
  A \<open>char\<close> is read as a code point below 256. \<^verbatim>\<open>str.isdigit\<close> holds of a non-empty
  string all of whose characters have the Unicode property Digit: below 256 these
  are the decimal digits 0-9 (48-57) and the superscripts two, three and one
  (178, 179, 185). \<^verbatim>\<open>int\<close> accepts, among such strings, those made of decimal digits
  only, and raises \<^verbatim>\<open>ValueError\<close> on the others.
\<close>

definition isdecimal_char :: "char \<Rightarrow> bool" where
  "isdecimal_char c = (48 \<le> (of_char c :: nat) \<and> (of_char c :: nat) \<le> 57)"

definition isdigit_char :: "char \<Rightarrow> bool" where
  "isdigit_char c =
     (isdecimal_char c \<or> (of_char c :: nat) = 178 \<or> (of_char c :: nat) = 179
        \<or> (of_char c :: nat) = 185)"

definition isdigit :: "string \<Rightarrow> bool" where
  "isdigit s = (s \<noteq> [] \<and> list_all isdigit_char s)"

definition digits_value :: "string \<Rightarrow> nat" where
  "digits_value s = foldl (\<lambda>acc c. 10 * acc + (of_char c - 48)) 0 s"

text \<open>\<^verbatim>\<open>int(s)\<close> for a string \<open>s\<close> that passed \<^verbatim>\<open>s.isdigit()\<close>.\<close>

definition int_of_digits :: "string \<Rightarrow> exn + nat" where
  "int_of_digits s =
     (if list_all isdecimal_char s then Inr (digits_value s)
      else Inl (ValueError (''invalid literal for int() with base 10: ''
                              @ [CHR 0x27] @ s @ [CHR 0x27])))"

text \<open>\<^verbatim>\<open>str(n)\<close> for a natural number, as the page URL needs it.\<close>

fun str_nat :: "nat \<Rightarrow> string" where
  "str_nat n =
     (if n < 10 then [char_of (48 + n)]
      else str_nat (n div 10) @ [char_of (48 + n mod 10)])"

section \<open>The site, the scraper and its effects\<close>

text \<open>
  The site answers a GET with a response (a status code and the document that
  \<^verbatim>\<open>BeautifulSoup\<close> makes of the body), or the request raises (\<open>Inl\<close>, with the message
  of the exception). The retries of the session are inside \<^verbatim>\<open>session.get\<close>.
\<close>

record response =
  status_code :: nat
  soup_of :: node

type_synonym site = "string \<Rightarrow> string + response"

text \<open>
  What a run does to the outside, in the order it happens: a GET through the
  session, a call of the progress callback, the calls \<^verbatim>\<open>_update_database\<close> and
  \<^verbatim>\<open>db.save_common_movies\<close> on the database. Printing and sleeping are left out.
\<close>

datatype event =
    Get string
  | Progress real string
  | UpdateDatabase string string "MovieInfo list"
  | SaveCommonMovies string string "MovieInfo list"

text \<open>
  The scraper object of \<^verbatim>\<open>__init__\<close> (lines 37-42): the fields \<^verbatim>\<open>common_movies\<close> and
  \<^verbatim>\<open>error_message\<close>, and the trace of what has been done through \<^verbatim>\<open>self.session\<close>,
  \<^verbatim>\<open>self.db\<close> and the callbacks so far.
\<close>

record scraper =
  common_movies :: "MovieInfo list"
  error_message :: string
  trace :: "event list"

definition init :: scraper where
  "init = \<lparr>common_movies = [], error_message = [], trace = []\<rparr>"

definition profile_url :: "string \<Rightarrow> string" where
  "profile_url username = ''https://letterboxd.com/'' @ username @ ''/''"

definition watchlist_url :: "string \<Rightarrow> string" where
  "watchlist_url username = ''https://letterboxd.com/'' @ username @ ''/watchlist/''"

definition page_url :: "string \<Rightarrow> nat \<Rightarrow> string" where
  "page_url username page_num =
     watchlist_url username @ ''page/'' @ str_nat (page_num + 1) @ ''/''"

text \<open>\<^verbatim>\<open>_check_user_profile\<close> (lines 57-62).\<close>

definition check_user_profile :: "site \<Rightarrow> string \<Rightarrow> exn + unit" where
  "check_user_profile w username =
     (case w (profile_url username) of
        Inl m \<Rightarrow> Inl (RequestException m)
      | Inr r \<Rightarrow>
          if status_code r \<noteq> 200
          then Inl (ValueError (''User profile not found: '' @ username))
          else Inr ())"

text \<open>\<^verbatim>\<open>_fetch_watchlist_page\<close> (lines 64-69).\<close>

definition fetch_watchlist_page :: "site \<Rightarrow> string \<Rightarrow> exn + node" where
  "fetch_watchlist_page w url =
     (case w url of
        Inl m \<Rightarrow> Inl (RequestException m)
      | Inr r \<Rightarrow>
          if status_code r \<noteq> 200
          then Inl (ValueError (''Failed to fetch watchlist page: '' @ url))
          else Inr (soup_of r))"

section \<open>Pagination (main.py, lines 125-142)\<close>

text \<open>
  The generator \<^verbatim>\<open>(int(a.text) for a in ... if a.text.isdigit())\<close>: the labels that
  pass \<^verbatim>\<open>isdigit\<close> are converted in order, and the first \<^verbatim>\<open>ValueError\<close> of \<^verbatim>\<open>int\<close> ends it.
\<close>

fun label_ints :: "string list \<Rightarrow> exn + nat list" where
  "label_ints [] = Inr []"
| "label_ints (t # ts) =
     (if isdigit t then
        (case int_of_digits t of
           Inl e \<Rightarrow> Inl e
         | Inr n \<Rightarrow> (case label_ints ts of Inl e \<Rightarrow> Inl e | Inr ns \<Rightarrow> Inr (n # ns)))
      else label_ints ts)"

text \<open>\<^verbatim>\<open>max(xs, default=d)\<close>.\<close>

fun max_default :: "nat list \<Rightarrow> nat \<Rightarrow> nat" where
  "max_default [] d = d"
| "max_default (n # ns) d = foldl max n ns"

text \<open>The link labels of the pagination control of a page, when it has one.\<close>

definition pagination_labels :: "node \<Rightarrow> string list option" where
  "pagination_labels initial_page =
     (case soup_find ''div'' (Some ''pagination'') initial_page of
        None \<Rightarrow> None
      | Some pagination \<Rightarrow> Some (map get_text (soup_find_all ''a'' None pagination)))"

text \<open>The value of \<^verbatim>\<open>last_page\<close> (lines 125-129).\<close>

definition last_page_of :: "node \<Rightarrow> exn + nat" where
  "last_page_of initial_page =
     (case pagination_labels initial_page of
        None \<Rightarrow> Inr 1
      | Some labels \<Rightarrow>
          (case label_ints labels of
             Inl e \<Rightarrow> Inl e
           | Inr ns \<Rightarrow> Inr (max_default ns 1)))"

text \<open>
  The loop over \<^verbatim>\<open>range(last_page)\<close> (lines 132-142), as a recursion over the page
  numbers still to do: the result so far is \<open>acc\<close>; the events of the loop are
  returned with its result. \<open>cb\<close> tells whether a progress callback was given.
\<close>

fun fetch_pages ::
  "site \<Rightarrow> bool \<Rightarrow> string \<Rightarrow> nat \<Rightarrow> nat list \<Rightarrow> MovieInfo list
     \<Rightarrow> (exn + MovieInfo list) \<times> event list" where
  "fetch_pages w cb username last_page [] acc = (Inr acc, [])"
| "fetch_pages w cb username last_page (page_num # rest) acc =
     (if cb \<and> last_page = 0 then (Inl ZeroDivisionError, [])
      else
        let evs =
              (if cb then [Progress (real (page_num + 1) / real last_page * 100) username]
               else [])
              @ [Get (page_url username page_num)]
        in case fetch_watchlist_page w (page_url username page_num) of
             Inl e \<Rightarrow> (Inl e, evs)
           | Inr page_soup \<Rightarrow>
               (case fetch_pages w cb username last_page rest
                       (acc @ parse_movie_page page_soup) of
                  (r, evs') \<Rightarrow> (r, evs @ evs')))"

section \<open>Retrieval of a watchlist (main.py, lines 116-153)\<close>

text \<open>
  The \<^verbatim>\<open>try\<close> block of \<^verbatim>\<open>get_user_watchlist\<close>: its result or the exception that ends
  it, and the events up to there.
\<close>

definition watchlist_try ::
  "site \<Rightarrow> string \<Rightarrow> string \<Rightarrow> bool \<Rightarrow> (exn + MovieInfo list) \<times> event list" where
  "watchlist_try w username username2 cb =
     (case check_user_profile w username of
        Inl e \<Rightarrow> (Inl e, [Get (profile_url username)])
      | Inr _ \<Rightarrow>
          (let ev1 = [Get (profile_url username), Get (watchlist_url username)] in
           case fetch_watchlist_page w (watchlist_url username) of
             Inl e \<Rightarrow> (Inl e, ev1)
           | Inr initial_page \<Rightarrow>
               (case last_page_of initial_page of
                  Inl e \<Rightarrow> (Inl e, ev1)
                | Inr last_page \<Rightarrow>
                    (case fetch_pages w cb username last_page [0..<last_page] [] of
                       (Inl e, ev2) \<Rightarrow> (Inl e, ev1 @ ev2)
                     | (Inr user_watchlist, ev2) \<Rightarrow>
                         if user_watchlist = []
                         then (Inl (ValueError (''No movies found for user: '' @ username)),
                               ev1 @ ev2)
                         else (Inr user_watchlist,
                               ev1 @ ev2
                                 @ [UpdateDatabase username username2 user_watchlist])))))"

text \<open>
  \<^verbatim>\<open>get_user_watchlist\<close>: the handler of the \<^verbatim>\<open>try\<close> block stores the message (the
  traceback that the source appends to it is left out) and returns the empty list.
\<close>

definition get_user_watchlist ::
  "site \<Rightarrow> scraper \<Rightarrow> string \<Rightarrow> string \<Rightarrow> bool \<Rightarrow> MovieInfo list \<times> scraper" where
  "get_user_watchlist w self username username2 cb =
     (case watchlist_try w username username2 cb of
        (Inr user_watchlist, evs) \<Rightarrow>
          (user_watchlist, self\<lparr>trace := trace self @ evs\<rparr>)
      | (Inl e, evs) \<Rightarrow>
          ([], self\<lparr>error_message :=
                      ''Failed to fetch watchlist ('' @ username @ ''): '' @ str_exn e,
                    trace := trace self @ evs\<rparr>))"

section \<open>Comparison (main.py, lines 166-208)\<close>

record statistics =
  overlap_percentage :: real
  total_unique_movies :: nat

text \<open>The two dictionaries that \<^verbatim>\<open>compare_watchlists\<close> returns.\<close>

datatype comparison =
    Success (common_movies_of: "MovieInfo list") (user1_total: nat) (user2_total: nat)
            (common_total: nat) (statistics_of: statistics)
  | Failure (message: string) (common_movies_of: "MovieInfo list")

text \<open>
  \<^verbatim>\<open>_calculate_statistics\<close> (lines 203-208) reads \<^verbatim>\<open>self.common_movies\<close>. The division is
  Python's true division, in exact arithmetic here; it raises when the shorter list
  is empty.
\<close>

definition calculate_statistics ::
  "scraper \<Rightarrow> MovieInfo list \<Rightarrow> MovieInfo list \<Rightarrow> exn + statistics" where
  "calculate_statistics self list1 list2 =
     (if min (length list1) (length list2) = 0 then Inl ZeroDivisionError
      else Inr \<lparr>overlap_percentage =
                  real (length (common_movies self))
                    / real (min (length list1) (length list2)) * 100,
                total_unique_movies = card (set (map title (list1 @ list2)))\<rparr>)"

definition common_titles :: "MovieInfo list \<Rightarrow> MovieInfo list \<Rightarrow> string set" where
  "common_titles user1_watchlist user2_watchlist =
     set (map title user1_watchlist) \<inter> set (map title user2_watchlist)"

text \<open>
  Lines 177-194 of \<^verbatim>\<open>compare_watchlists\<close>, the comparison of two watchlists that
  have been retrieved: the common movies are stored in \<^verbatim>\<open>self.common_movies\<close>, saved
  to the database, and returned with the counts and the statistics.
\<close>

definition compare_lists ::
  "scraper \<Rightarrow> string \<Rightarrow> string \<Rightarrow> MovieInfo list \<Rightarrow> MovieInfo list
     \<Rightarrow> (exn + comparison) \<times> scraper" where
  "compare_lists self username1 username2 user1_watchlist user2_watchlist =
     (let cm = filter (\<lambda>movie. title movie \<in> common_titles user1_watchlist user2_watchlist)
                 user1_watchlist;
          self' = self\<lparr>common_movies := cm,
                       trace := trace self @ [SaveCommonMovies username1 username2 cm]\<rparr>
      in case calculate_statistics self' user1_watchlist user2_watchlist of
           Inl e \<Rightarrow> (Inl e, self')
         | Inr st \<Rightarrow>
             (Inr (Success (common_movies self') (length user1_watchlist)
                     (length user2_watchlist) (length (common_movies self')) st),
              self'))"

text \<open>The \<^verbatim>\<open>try\<close> block of \<^verbatim>\<open>compare_watchlists\<close> (lines 169-194).\<close>

definition compare_try ::
  "site \<Rightarrow> scraper \<Rightarrow> string \<Rightarrow> string \<Rightarrow> bool \<Rightarrow> (exn + comparison) \<times> scraper" where
  "compare_try w self username1 username2 cb =
     (case get_user_watchlist w self username1 username2 cb of
        (user1_watchlist, self1) \<Rightarrow>
          if user1_watchlist = []
          then (Inl (ValueError (''Could not fetch watchlist for '' @ username1)), self1)
          else
            (case get_user_watchlist w self1 username2 username1 cb of
               (user2_watchlist, self2) \<Rightarrow>
                 if user2_watchlist = []
                 then (Inl (ValueError (''Could not fetch watchlist for '' @ username2)),
                       self2)
                 else compare_lists self2 username1 username2
                        user1_watchlist user2_watchlist))"

text \<open>\<^verbatim>\<open>compare_watchlists\<close>: every exception of the block becomes the error result.\<close>

definition compare_watchlists ::
  "site \<Rightarrow> scraper \<Rightarrow> string \<Rightarrow> string \<Rightarrow> bool \<Rightarrow> comparison \<times> scraper" where
  "compare_watchlists w self username1 username2 cb =
     (case compare_try w self username1 username2 cb of
        (Inr result, self') \<Rightarrow> (result, self')
      | (Inl e, self') \<Rightarrow> (Failure ''user_not_found'' [], self'))"

section \<open>Page layouts and an example site\<close>

text \<open>
  The layouts that \<^verbatim>\<open>_parse_movie_page\<close> knows: a grid (\<^verbatim>\<open>ul.poster-list\<close>,
  \<^verbatim>\<open>ul.films-grid\<close> or \<^verbatim>\<open>div.films-grid\<close>) whose items are \<^verbatim>\<open>li.poster-container\<close>
  elements with one poster each, or the posters without any grid. \<open>pre\<close> and \<open>post\<close>
  are what stands before and after on the page.
\<close>

definition document :: "node list \<Rightarrow> node" where
  "document ks = Tag ''[document]'' [] [] ks"

definition poster_container :: "node \<Rightarrow> node" where
  "poster_container p = Tag ''li'' [''poster-container''] [] [p]"

definition grid :: "string \<Rightarrow> string \<Rightarrow> node list \<Rightarrow> node" where
  "grid tg cls posters = Tag tg [cls] [] (map poster_container posters)"

definition grid_page :: "string \<Rightarrow> string \<Rightarrow> node list \<Rightarrow> node list \<Rightarrow> node list \<Rightarrow> node" where
  "grid_page tg cls pre posters post = document (pre @ [grid tg cls posters] @ post)"

definition flat_page :: "node list \<Rightarrow> node list \<Rightarrow> node list \<Rightarrow> node" where
  "flat_page pre posters post = document (pre @ posters @ post)"




text \<open>The progress values reported to the callback, read off a trace.\<close>

fun progress_values :: "event list \<Rightarrow> real list" where
  "progress_values [] = []"
| "progress_values (Progress p u # evs) = p # progress_values evs"
| "progress_values (e # evs) = progress_values evs"

text \<open>A small site for the examples.\<close>

definition poster :: "string \<Rightarrow> node" where
  "poster t = Tag ''div'' [''poster'', ''film-poster''] [(''data-film-name'', t)] []"

definition poster_alt :: "string \<Rightarrow> node" where
  "poster_alt t =
     Tag ''div'' [''film-poster''] [] [Tag ''img'' [''image''] [(''alt'', t)] []]"

definition pagination :: "string list \<Rightarrow> node" where
  "pagination labels =
     Tag ''div'' [''pagination''] []
       (map (\<lambda>l. Tag ''a'' [] [(''href'', ''#'')] [NavigableString l]) labels)"

definition ok :: "node \<Rightarrow> string + response" where
  "ok d = Inr \<lparr>status_code = 200, soup_of = d\<rparr>"

definition example_site :: site where
  "example_site url =
     (if url = profile_url ''a'' \<or> url = profile_url ''b'' \<or> url = profile_url ''e''
         \<or> url = profile_url ''s'' \<or> url = profile_url ''f''
      then ok (document [])
      else if url = watchlist_url ''a'' \<or> url = page_url ''a'' 0
              \<or> url = watchlist_url ''f'' \<or> url = page_url ''f'' 0
      then ok (grid_page ''ul'' ''poster-list'' []
                 [poster ''Inception'', poster_alt ''Arrival'']
                 [pagination [''1'', ''2'', ''...'']])
      else if url = page_url ''a'' 1 then ok (flat_page [] [poster ''Dune''] [])
      else if url = watchlist_url ''b'' \<or> url = page_url ''b'' 0
      then ok (grid_page ''div'' ''films-grid'' []
                 [poster ''Dune'', poster ''Arrival'', poster ''Whiplash''] [])
      else if url = watchlist_url ''e'' \<or> url = page_url ''e'' 0
      then ok (flat_page [] [] [])
      else if url = watchlist_url ''s''
      then ok (flat_page [] [poster ''Dune''] [pagination [''1'', [CHR 0xB2]]])
      else Inr \<lparr>status_code = 404, soup_of = document []\<rparr>)"

section \<open>The common movies\<close>

lemma common_movies_filter:
  "filter (\<lambda>movie. title movie \<in> common_titles a b) a
     = filter (\<lambda>movie. title movie \<in> title ` set b) a"
  by (rule filter_cong) (auto simp: common_titles_def)

lemma compare_lists_Success:
  assumes "a \<noteq> []" and "b \<noteq> []"
  shows "compare_lists self u1 u2 a b =
           (Inr (Success (filter (\<lambda>movie. title movie \<in> title ` set b) a)
                   (length a) (length b)
                   (length (filter (\<lambda>movie. title movie \<in> title ` set b) a))
                   \<lparr>overlap_percentage =
                      real (length (filter (\<lambda>movie. title movie \<in> title ` set b) a))
                        / real (min (length a) (length b)) * 100,
                    total_unique_movies = card (set (map title (a @ b)))\<rparr>),
            self\<lparr>common_movies := filter (\<lambda>movie. title movie \<in> title ` set b) a,
                 trace := trace self
                   @ [SaveCommonMovies u1 u2
                        (filter (\<lambda>movie. title movie \<in> title ` set b) a)]\<rparr>)"
  using assms
  by (simp add: compare_lists_def calculate_statistics_def common_movies_filter Let_def)


lemma example_compare_lists:
  "compare_lists init ''a'' ''b''
     [new_MovieInfo ''Inception'', new_MovieInfo ''Arrival'', new_MovieInfo ''Dune'']
     [new_MovieInfo ''Dune'', new_MovieInfo ''Arrival'', new_MovieInfo ''Whiplash'']
   = (Inr (Success [new_MovieInfo ''Arrival'', new_MovieInfo ''Dune''] 3 3 2
             \<lparr>overlap_percentage = 200 / 3, total_unique_movies = 4\<rparr>),
      \<lparr>common_movies = [new_MovieInfo ''Arrival'', new_MovieInfo ''Dune''],
       error_message = [],
       trace = [SaveCommonMovies ''a'' ''b''
                  [new_MovieInfo ''Arrival'', new_MovieInfo ''Dune'']]\<rparr>)"
  by (simp add: compare_lists_def calculate_statistics_def common_titles_def
        new_MovieInfo_def init_def Let_def card_insert_if)


lemma example_a:
  "watchlist_try example_site ''a'' ''b'' True =
     (Inr [new_MovieInfo ''Inception'', new_MovieInfo ''Arrival'', new_MovieInfo ''Dune''],
      [Get ''https://letterboxd.com/a/'',
       Get ''https://letterboxd.com/a/watchlist/'',
       Progress 50 ''a'',
       Get ''https://letterboxd.com/a/watchlist/page/1/'',
       Progress 100 ''a'',
       Get ''https://letterboxd.com/a/watchlist/page/2/'',
       UpdateDatabase ''a'' ''b''
         [new_MovieInfo ''Inception'', new_MovieInfo ''Arrival'', new_MovieInfo ''Dune'']])"
  by code_simp

lemma example_b:
  "watchlist_try example_site ''b'' ''a'' True =
     (Inr [new_MovieInfo ''Dune'', new_MovieInfo ''Arrival'', new_MovieInfo ''Whiplash''],
      [Get ''https://letterboxd.com/b/'',
       Get ''https://letterboxd.com/b/watchlist/'',
       Progress 100 ''b'',
       Get ''https://letterboxd.com/b/watchlist/page/1/'',
       UpdateDatabase ''b'' ''a''
         [new_MovieInfo ''Dune'', new_MovieInfo ''Arrival'', new_MovieInfo ''Whiplash'']])"
  by code_simp

lemma example_compare_watchlists:
  "fst (compare_watchlists example_site init ''a'' ''b'' True) =
     Success [new_MovieInfo ''Arrival'', new_MovieInfo ''Dune''] 3 3 2
       \<lparr>overlap_percentage = 200 / 3, total_unique_movies = 4\<rparr>"
  by (simp add: compare_watchlists_def compare_try_def get_user_watchlist_def
        example_a example_b)
     (simp add: compare_lists_def calculate_statistics_def common_titles_def
        new_MovieInfo_def Let_def card_insert_if)

lemma get_user_watchlist_common [simp]:
  "common_movies (snd (get_user_watchlist w self u u2 cb)) = common_movies self"
  by (simp add: get_user_watchlist_def split: prod.splits sum.splits)

lemma compare_watchlists_cases:
  "compare_watchlists w self u1 u2 cb =
     (case get_user_watchlist w self u1 u2 cb of
        (a, self1) \<Rightarrow>
          if a = [] then (Failure ''user_not_found'' [], self1)
          else
            (case get_user_watchlist w self1 u2 u1 cb of
               (b, self2) \<Rightarrow>
                 if b = [] then (Failure ''user_not_found'' [], self2)
                 else
                   (Success (filter (\<lambda>movie. title movie \<in> title ` set b) a)
                      (length a) (length b)
                      (length (filter (\<lambda>movie. title movie \<in> title ` set b) a))
                      \<lparr>overlap_percentage =
                         real (length (filter (\<lambda>movie. title movie \<in> title ` set b) a))
                           / real (min (length a) (length b)) * 100,
                       total_unique_movies = card (set (map title (a @ b)))\<rparr>,
                    self2\<lparr>common_movies := filter (\<lambda>movie. title movie \<in> title ` set b) a,
                          trace := trace self2
                            @ [SaveCommonMovies u1 u2
                                 (filter (\<lambda>movie. title movie \<in> title ` set b) a)]\<rparr>)))"
  by (simp add: compare_watchlists_def compare_try_def compare_lists_Success
        split: prod.splits)

text \<open>
  C2. In every successful result of \<^verbatim>\<open>compare_watchlists\<close> the field
  \<^verbatim>\<open>common_total\<close> is the length of the field \<^verbatim>\<open>common_movies\<close>.
\<close>

theorem C2_common_total:
  assumes "fst (compare_watchlists w self u1 u2 cb) = Success cm t1 t2 ct st"
  shows "ct = length cm"
  using assms
  by (auto simp: compare_watchlists_cases split: prod.splits if_splits)

theorem C2_common_total_witness:
  "fst (compare_watchlists example_site init ''a'' ''b'' True) =
     Success [new_MovieInfo ''Arrival'', new_MovieInfo ''Dune''] 3 3 2
       \<lparr>overlap_percentage = 200 / 3, total_unique_movies = 4\<rparr>
   \<and> (2::nat) = length [new_MovieInfo ''Arrival'', new_MovieInfo ''Dune'']"
  using C2_common_total [OF example_compare_watchlists] example_compare_watchlists
  by simp

section \<open>The statistics\<close>

text \<open>
  \<^verbatim>\<open>_calculate_statistics\<close> raises \<^verbatim>\<open>ZeroDivisionError\<close> exactly when one of the lists is
  empty; \<^verbatim>\<open>compare_watchlists\<close> never calls it so.
\<close>

lemma calculate_statistics_raises:
  "(calculate_statistics self a b = Inl ZeroDivisionError) = (a = [] \<or> b = [])"
  by (cases a; cases b) (simp_all add: calculate_statistics_def)



lemma example_statistics:
  "calculate_statistics
     (init\<lparr>common_movies := [new_MovieInfo ''Arrival'', new_MovieInfo ''Dune'']\<rparr>)
     [new_MovieInfo ''Inception'', new_MovieInfo ''Arrival'', new_MovieInfo ''Dune'']
     [new_MovieInfo ''Dune'', new_MovieInfo ''Arrival'', new_MovieInfo ''Whiplash'']
   = Inr \<lparr>overlap_percentage = 200 / 3, total_unique_movies = 4\<rparr>"
  by (simp add: calculate_statistics_def new_MovieInfo_def init_def card_insert_if)

section \<open>The state of the scraper between comparisons\<close>

lemma compare_lists_result_indep:
  "fst (compare_lists s1 u1 u2 a b) = fst (compare_lists s2 u1 u2 a b)"
  by (cases "a = [] \<or> b = []")
     (auto simp: compare_lists_def calculate_statistics_def Let_def)

lemma get_user_watchlist_indep:
  "fst (get_user_watchlist w s1 u u2 cb) = fst (get_user_watchlist w s2 u u2 cb)"
  by (simp add: get_user_watchlist_def split: prod.splits sum.splits)

lemma compare_watchlists_indep:
  "fst (compare_watchlists w s1 u1 u2 cb) = fst (compare_watchlists w s2 u1 u2 cb)"
proof -
  obtain a t1 where g1: "get_user_watchlist w s1 u1 u2 cb = (a, t1)" by force
  obtain a' t1' where g1': "get_user_watchlist w s2 u1 u2 cb = (a', t1')" by force
  have aa: "a' = a" using get_user_watchlist_indep [of w s1 u1 u2 cb s2] g1 g1' by simp
  obtain b t2 where g2: "get_user_watchlist w t1 u2 u1 cb = (b, t2)" by force
  obtain b' t2' where g2': "get_user_watchlist w t1' u2 u1 cb = (b', t2')" by force
  have bb: "b' = b" using get_user_watchlist_indep [of w t1 u2 u1 cb t1'] g2 g2' by simp
  show ?thesis
    by (simp add: compare_watchlists_cases g1 g1' g2 g2' aa bb)
qed

text \<open>
  C8, as the code has it. What a comparison returns does not depend on the state the
  scraper is in, so two runs on the same watchlists (or, for \<^verbatim>\<open>compare_watchlists\<close>,
  on the same site and users) return equal results whatever was compared before.
  But the scraper does keep comparison state: each comparison of two watchlists
  overwrites the field \<^verbatim>\<open>common_movies\<close> with the common movies it has computed.
\<close>

theorem C8_result_independent_of_state:
  "fst (compare_lists s1 u1 u2 a b) = fst (compare_lists s2 u1 u2 a b)
   \<and> fst (compare_watchlists w s1 u1 u2 cb) = fst (compare_watchlists w s2 u1 u2 cb)
   \<and> common_movies (snd (compare_lists s1 u1 u2 a b))
       = filter (\<lambda>movie. title movie \<in> title ` set b) a"
  by (simp add: compare_lists_result_indep [of s1 u1 u2 a b s2]
        compare_watchlists_indep [of w s1 u1 u2 cb s2])
     (simp add: compare_lists_def Let_def common_movies_filter split: sum.splits)

text \<open>
  The claim that no comparison state is stored fails: after the comparison of the
  example the field \<^verbatim>\<open>common_movies\<close> is no longer what it was.
\<close>

theorem C8_stored_state_counterexample:
  "common_movies (snd (compare_lists init ''a'' ''b''
      [new_MovieInfo ''Inception'', new_MovieInfo ''Arrival'', new_MovieInfo ''Dune'']
      [new_MovieInfo ''Dune'', new_MovieInfo ''Arrival'', new_MovieInfo ''Whiplash'']))
   \<noteq> common_movies init"
  by (simp add: example_compare_lists) (simp add: init_def)


section \<open>The records that extraction produces\<close>

lemma extract_movie_info_Some:
  "extract_movie_info p = Some m \<Longrightarrow> title m \<noteq> [] \<and> genres m = []"
  by (auto simp: extract_movie_info_def new_MovieInfo_def Let_def
        split: option.splits if_splits)

lemma extract_item_Some:
  "extract_item i = Some m \<Longrightarrow> title m \<noteq> [] \<and> genres m = []"
  by (auto simp: extract_item_def split: option.splits dest: extract_movie_info_Some)

lemma set_map_filter: "set (List.map_filter f xs) = {y. \<exists>x \<in> set xs. f x = Some y}"
  by (induction xs) (auto simp: List.map_filter_simps split: option.splits)

lemma parse_movie_page_records:
  "m \<in> set (parse_movie_page soup) \<Longrightarrow> title m \<noteq> [] \<and> genres m = []"
  by (auto simp: parse_movie_page_def set_map_filter split: option.splits
        dest: extract_movie_info_Some extract_item_Some)

lemma fetch_pages_records:
  assumes "fetch_pages w cb u n ps acc = (Inr xs, evs)"
      and "\<forall>m \<in> set acc. title m \<noteq> [] \<and> genres m = []"
  shows "\<forall>m \<in> set xs. title m \<noteq> [] \<and> genres m = []"
  using assms
proof (induction ps arbitrary: acc evs)
  case Nil
  then show ?case by simp
next
  case (Cons p ps)
  from Cons.prems(1) obtain soup evs' where
    f: "fetch_watchlist_page w (page_url u p) = Inr soup"
    and r: "fetch_pages w cb u n ps (acc @ parse_movie_page soup) = (Inr xs, evs')"
    by (auto simp: Let_def split: if_splits sum.splits prod.splits)
  have "\<forall>m \<in> set (acc @ parse_movie_page soup). title m \<noteq> [] \<and> genres m = []"
    using Cons.prems(2) parse_movie_page_records by auto
  with Cons.IH [OF r] show ?case .
qed

lemma watchlist_try_records:
  assumes "watchlist_try w u u2 cb = (Inr xs, evs)"
  shows "xs \<noteq> [] \<and> (\<forall>m \<in> set xs. title m \<noteq> [] \<and> genres m = [])"
proof -
  from assms obtain n ev2 where
    "fetch_pages w cb u n [0..<n] [] = (Inr xs, ev2)" and "xs \<noteq> []"
    by (auto simp: watchlist_try_def Let_def split: sum.splits prod.splits if_splits)
  then show ?thesis
    using fetch_pages_records [of w cb u n "[0..<n]" "[]" xs ev2] by simp
qed





text \<open>
  Where the title comes from: the data attribute when it is there and not empty,
  else the \<^verbatim>\<open>alt\<close> text of the image; the element is dropped when neither gives one.
\<close>

lemma extract_movie_info_title:
  "extract_movie_info p =
     (case get_attr p ''data-film-name'' of
        Some t \<Rightarrow> if t \<noteq> [] then Some (new_MovieInfo t) else
           (case soup_find ''img'' (Some ''image'') p of
              None \<Rightarrow> None
            | Some img \<Rightarrow>
                (case get_attr img ''alt'' of
                   None \<Rightarrow> None
                 | Some t \<Rightarrow> if t \<noteq> [] then Some (new_MovieInfo t) else None))
      | None \<Rightarrow>
           (case soup_find ''img'' (Some ''image'') p of
              None \<Rightarrow> None
            | Some img \<Rightarrow>
                (case get_attr img ''alt'' of
                   None \<Rightarrow> None
                 | Some t \<Rightarrow> if t \<noteq> [] then Some (new_MovieInfo t) else None)))"
  by (simp add: extract_movie_info_def Let_def split: option.splits)

section \<open>The empty watchlist\<close>

lemma watchlist_try_nonempty: "watchlist_try w u u2 cb \<noteq> (Inr [], evs)"
  using watchlist_try_records [of w u u2 cb "[]" evs] by auto

text \<open>
  C6. A retrieval whose profile check, first page and pagination all succeed but
  which has collected no movie raises the error \<^verbatim>\<open>No movies found for user\<close>;
  \<^verbatim>\<open>get_user_watchlist\<close> records it in \<^verbatim>\<open>error_message\<close>, does not update the database
  and returns its failure value. The \<^verbatim>\<open>try\<close> block never succeeds with an empty list.
\<close>

theorem C6_empty_watchlist:
  assumes "check_user_profile w u = Inr ()"
      and "fetch_watchlist_page w (watchlist_url u) = Inr initial_page"
      and "last_page_of initial_page = Inr n"
      and "fetch_pages w cb u n [0..<n] [] = (Inr [], evs)"
  shows "watchlist_try w u u2 cb =
           (Inl (ValueError (''No movies found for user: '' @ u)),
            [Get (profile_url u), Get (watchlist_url u)] @ evs)
       \<and> get_user_watchlist w self u u2 cb =
           ([], self\<lparr>error_message :=
                      ''Failed to fetch watchlist ('' @ u @ ''): ''
                        @ ''No movies found for user: '' @ u,
                    trace := trace self @ [Get (profile_url u), Get (watchlist_url u)] @ evs\<rparr>)
       \<and> (\<forall>evs'. watchlist_try w u u2 cb \<noteq> (Inr [], evs'))"
  using assms watchlist_try_nonempty [of w u u2 cb]
  by (simp add: watchlist_try_def get_user_watchlist_def)


lemma example_e:
  "check_user_profile example_site ''e'' = Inr ()"
  "fetch_watchlist_page example_site (watchlist_url ''e'') = Inr (flat_page [] [] [])"
  "last_page_of (flat_page [] [] []) = Inr 1"
  "fetch_pages example_site True ''e'' 1 [0..<1] [] =
     (Inr [], [Progress 100 ''e'', Get ''https://letterboxd.com/e/watchlist/page/1/''])"
  by code_simp+

theorem C6_empty_watchlist_witness:
  "watchlist_try example_site ''e'' ''a'' True =
     (Inl (ValueError ''No movies found for user: e''),
      [Get ''https://letterboxd.com/e/'', Get ''https://letterboxd.com/e/watchlist/'',
       Progress 100 ''e'', Get ''https://letterboxd.com/e/watchlist/page/1/''])
   \<and> fst (get_user_watchlist example_site init ''e'' ''a'' True) = []
   \<and> error_message (snd (get_user_watchlist example_site init ''e'' ''a'' True))
       = ''Failed to fetch watchlist (e): No movies found for user: e''"
  using C6_empty_watchlist [OF example_e, of "''a''" init]
  by (simp add: profile_url_def watchlist_url_def)

section \<open>Failure of a retrieval\<close>

lemma fetch_pages_no_db:
  "fetch_pages w cb u n ps acc = (r, evs) \<Longrightarrow> e \<in> set evs
     \<Longrightarrow> (\<exists>p v. e = Progress p v) \<or> (\<exists>url. e = Get url)"
proof (induction ps arbitrary: acc r evs)
  case Nil
  then show ?case by simp
next
  case (Cons p ps)
  then show ?case
    by (fastforce simp: Let_def split: if_splits sum.splits prod.splits)
qed

lemma watchlist_try_no_save:
  assumes "watchlist_try w u u2 cb = (r, evs)"
  shows "SaveCommonMovies a b ms \<notin> set evs"
proof
  assume m: "SaveCommonMovies a b ms \<in> set evs"
  from assms m show False
    by (auto simp: watchlist_try_def Let_def
          split: sum.splits prod.splits if_splits dest: fetch_pages_no_db)
qed

lemma get_user_watchlist_eq:
  "get_user_watchlist w self u u2 cb =
     (case fst (watchlist_try w u u2 cb) of Inl e \<Rightarrow> [] | Inr xs \<Rightarrow> xs,
      self\<lparr>error_message :=
             (case fst (watchlist_try w u u2 cb) of
                Inl e \<Rightarrow> ''Failed to fetch watchlist ('' @ u @ ''): '' @ str_exn e
              | Inr xs \<Rightarrow> error_message self),
           trace := trace self @ snd (watchlist_try w u u2 cb)\<rparr>)"
  by (simp add: get_user_watchlist_def split: prod.splits sum.splits)

lemma get_user_watchlist_fails:
  "(fst (get_user_watchlist w self u u2 cb) = []) = (\<exists>e. fst (watchlist_try w u u2 cb) = Inl e)"
  using watchlist_try_nonempty [of w u u2 cb]
  by (cases "watchlist_try w u u2 cb") (auto simp: get_user_watchlist_eq split: sum.splits)

lemma get_user_watchlist_no_save:
  "SaveCommonMovies a b ms \<in> set (trace (snd (get_user_watchlist w self u u2 cb)))
     \<Longrightarrow> SaveCommonMovies a b ms \<in> set (trace self)"
  using watchlist_try_no_save [of w u u2 cb _ _ a b ms]
  by (cases "watchlist_try w u u2 cb") (auto simp: get_user_watchlist_eq)

text \<open>
  C7. When the retrieval of either watchlist fails, whatever exception its \<^verbatim>\<open>try\<close>
  block ended with, \<^verbatim>\<open>compare_watchlists\<close> returns the error result with the message
  \<^verbatim>\<open>user_not_found\<close> and no common movies, and the comparison has not run: the field
  \<^verbatim>\<open>common_movies\<close> is as before and no call of \<^verbatim>\<open>save_common_movies\<close> has been added
  to the trace. In every case \<^verbatim>\<open>compare_watchlists\<close> returns one of its two results:
  every exception of its block is caught.
\<close>

theorem C7_retrieval_failure:
  "(((\<exists>e. fst (watchlist_try w u1 u2 cb) = Inl e) \<or> (\<exists>e. fst (watchlist_try w u2 u1 cb) = Inl e))
      \<longrightarrow> fst (compare_watchlists w self u1 u2 cb) = Failure ''user_not_found'' []
        \<and> common_movies (snd (compare_watchlists w self u1 u2 cb)) = common_movies self
        \<and> (\<forall>a b ms. SaveCommonMovies a b ms
                       \<in> set (trace (snd (compare_watchlists w self u1 u2 cb)))
                     \<longrightarrow> SaveCommonMovies a b ms \<in> set (trace self)))
   \<and> ((\<exists>cm t1 t2 ct st. fst (compare_watchlists w self u1 u2 cb) = Success cm t1 t2 ct st)
        \<or> fst (compare_watchlists w self u1 u2 cb) = Failure ''user_not_found'' [])"
proof -
  obtain a s1 where g1: "get_user_watchlist w self u1 u2 cb = (a, s1)" by force
  obtain b s2 where g2: "get_user_watchlist w s1 u2 u1 cb = (b, s2)" by force
  have a: "(a = []) = (\<exists>e. fst (watchlist_try w u1 u2 cb) = Inl e)"
    using get_user_watchlist_fails [of w self u1 u2 cb] g1 by simp
  have b: "(b = []) = (\<exists>e. fst (watchlist_try w u2 u1 cb) = Inl e)"
    using get_user_watchlist_fails [of w s1 u2 u1 cb] g2 by simp
  have c1: "common_movies s1 = common_movies self"
    using get_user_watchlist_common [of w self u1 u2 cb] g1 by simp
  have c2: "common_movies s2 = common_movies self"
    using get_user_watchlist_common [of w s1 u2 u1 cb] g2 c1 by simp
  have t1: "SaveCommonMovies x y ms \<in> set (trace s1)
              \<Longrightarrow> SaveCommonMovies x y ms \<in> set (trace self)" for x y ms
    using get_user_watchlist_no_save [of x y ms w self u1 u2 cb] g1 by simp
  have t2: "SaveCommonMovies x y ms \<in> set (trace s2)
              \<Longrightarrow> SaveCommonMovies x y ms \<in> set (trace self)" for x y ms
    using get_user_watchlist_no_save [of x y ms w s1 u2 u1 cb] g2 t1 by simp
  show ?thesis
  proof (cases "a = []")
    case True
    then show ?thesis
      using c1 t1 by (simp add: compare_watchlists_cases g1)
  next
    case na: False
    show ?thesis
    proof (cases "b = []")
      case True
      then show ?thesis
        using na c2 t2 by (simp add: compare_watchlists_cases g1 g2)
    next
      case False
      then show ?thesis
        using na a b by (simp add: compare_watchlists_cases g1 g2)
    qed
  qed
qed

lemma example_c:
  "fst (watchlist_try example_site ''c'' ''a'' True)
     = Inl (ValueError ''User profile not found: c'')"
  by code_simp

theorem C7_retrieval_failure_witness:
  "fst (watchlist_try example_site ''c'' ''a'' True)
     = Inl (ValueError ''User profile not found: c'')
   \<and> fst (compare_watchlists example_site init ''a'' ''c'' True)
       = Failure ''user_not_found'' []
   \<and> common_movies (snd (compare_watchlists example_site init ''a'' ''c'' True)) = []"
  using C7_retrieval_failure [of example_site "''a''" "''c''" True init] example_c
  by (simp add: init_def)


section \<open>Progress\<close>


lemma progress_values_append [simp]:
  "progress_values (xs @ ys) = progress_values xs @ progress_values ys"
  by (induction xs rule: progress_values.induct) simp_all




text \<open>Without a callback nothing is reported.\<close>

lemma fetch_pages_no_callback:
  "fetch_pages w False u n ps acc = (r, evs) \<Longrightarrow> progress_values evs = []"
proof (induction ps arbitrary: acc r evs)
  case Nil
  then show ?case by simp
next
  case (Cons p ps)
  then show ?case
    by (fastforce simp: Let_def split: sum.splits prod.splits)
qed





section \<open>The last page\<close>

lemma label_ints_decimal:
  assumes "\<forall>l \<in> set labels. isdigit l \<longrightarrow> list_all isdecimal_char l"
  shows "label_ints labels = Inr (map digits_value (filter isdigit labels))"
  using assms by (induction labels) (simp_all add: int_of_digits_def)

lemma label_ints_raises:
  assumes "l \<in> set labels" and "isdigit l" and "\<not> list_all isdecimal_char l"
  shows "\<exists>e. label_ints labels = Inl e"
  using assms by (induction labels) (auto simp: int_of_digits_def split: sum.splits)

lemma max_default_Max:
  "max_default ns d = (if ns = [] then d else Max (set ns))"
proof (cases ns)
  case Nil
  then show ?thesis by simp
next
  case (Cons n ns')
  have "foldl max n ns' = fold max ns' n"
    by (simp add: foldl_conv_fold max.commute)
  also have "\<dots> = Max (set (n # ns'))"
    by (rule Max.set_eq_fold [symmetric])
  finally show ?thesis
    by (simp add: Cons)
qed

text \<open>
  What does hold. Without a pagination control the last page is 1. With one, as long
  as every label that passes \<^verbatim>\<open>isdigit\<close> is made of decimal digits, the last page is
  the greatest number among those labels, or 1 when no label passes; the other labels
  are ignored.
\<close>

lemma last_page_of_no_pagination:
  "soup_find ''div'' (Some ''pagination'') p = None \<Longrightarrow> last_page_of p = Inr 1"
  by (simp add: last_page_of_def pagination_labels_def)

lemma last_page_of_decimal:
  assumes "pagination_labels p = Some labels"
      and "\<forall>l \<in> set labels. isdigit l \<longrightarrow> list_all isdecimal_char l"
  shows "last_page_of p =
           Inr (if filter isdigit labels = [] then 1
                else Max (digits_value ` set (filter isdigit labels)))"
  using assms(1) label_ints_decimal [OF assms(2)]
  by (simp add: last_page_of_def max_default_Max)

lemma example_last_page:
  "last_page_of (document [pagination [''1'', ''2'', ''3'', ''...'']]) = Inr 3"
  "last_page_of (document [pagination [''...'']]) = Inr 1"
  "last_page_of (document []) = Inr 1"
  by code_simp+

text \<open>The number read from a string of decimal digits is the number it writes.\<close>

lemma digits_value_snoc:
  "digits_value (s @ [c]) = 10 * digits_value s + (of_char c - 48)"
  by (simp add: digits_value_def)

lemma digits_value_str_nat: "digits_value (str_nat n) = n"
proof (induction n rule: str_nat.induct)
  case (1 n)
  show ?case
  proof (cases "n < 10")
    case True
    then have "digits_value [char_of (48 + n)] = n"
      by (simp add: digits_value_def)
    with True show ?thesis by (subst str_nat.simps) simp
  next
    case False
    have "n mod 10 < 10" by simp
    then have "(of_char (char_of (48 + n mod 10) :: char) :: nat) = 48 + n mod 10"
      by simp
    with False "1.IH" show ?thesis
      by (subst str_nat.simps) (simp add: digits_value_snoc)
  qed
qed

text \<open>
  C4 fails on the code for a label that passes \<^verbatim>\<open>isdigit\<close> and is no integer: the
  superscript two. The label is not ignored: \<^verbatim>\<open>int\<close> raises on it, no last page is
  computed, and the retrieval fails although the labels hold the page number 1.
\<close>

theorem C4_superscript_label:
  "pagination_labels (flat_page [] [poster ''Dune''] [pagination [''1'', [CHR 0xB2]]])
     = Some [''1'', [CHR 0xB2]]
   \<and> isdigit [CHR 0xB2]
   \<and> last_page_of (flat_page [] [poster ''Dune''] [pagination [''1'', [CHR 0xB2]]])
       = Inl (ValueError (''invalid literal for int() with base 10: ''
                          @ [CHR 0x27, CHR 0xB2, CHR 0x27]))
   \<and> fst (get_user_watchlist example_site init ''s'' ''a'' True) = []"
  by code_simp


section \<open>The layouts of a page\<close>

























text \<open>
  The containers matter: posters that stand in a grid without their
  \<^verbatim>\<open>li.poster-container\<close> are not read, while the same posters without a grid are.
\<close>

lemma grid_without_containers:
  "parse_movie_page (document [Tag ''ul'' [''poster-list''] [] [poster ''Dune'']]) = []"
  "parse_movie_page (document [poster ''Dune'']) = [new_MovieInfo ''Dune'']"
  by code_simp+

end
